theory Spec2Isabelle
  imports Complex_Main
begin

section \<open>Python values\<close>

text \<open>
  The development embeds \<^verbatim>\<open>ScreenshotCapture\<close> of \<^verbatim>\<open>screenshot_module.py\<close> and the
  worker loop \<^verbatim>\<open>ScreenshotController._capture_worker\<close> of \<^verbatim>\<open>desktop_app.py\<close>.

  Conventions.
  \<^item> Python's unbounded \<^verbatim>\<open>int\<close> is \<^typ>\<open>int\<close>.
  \<^item> A Python \<^verbatim>\<open>float\<close> is the real number it denotes (\<^typ>\<open>real\<close>); the rounding of
    floating-point arithmetic, infinities and NaN are not modelled.
  \<^item> A Python \<^verbatim>\<open>str\<close> is a \<^typ>\<open>string\<close>; text outside ASCII is its UTF-8 bytes.
  \<^item> An exception of class \<^verbatim>\<open>Exception\<close> (or a subclass) is a value \<open>Exception msg\<close>, where
    \<open>msg\<close> is what \<^verbatim>\<open>str(e)\<close> gives. A call that may raise returns \<open>exn + 'a\<close>, with \<open>Inl\<close>
    the exception. \<^verbatim>\<open>KeyboardInterrupt\<close> and \<^verbatim>\<open>SystemExit\<close>, which \<^verbatim>\<open>except Exception\<close>
    does not catch, are outside the model.
  \<^item> \<^verbatim>\<open>print\<close> writes nothing that the model tracks, but it may raise (for instance
    \<^verbatim>\<open>UnicodeEncodeError\<close>, when the console cannot encode the message); whether it does is
    a parameter of the environment.
\<close>

datatype exn = Exception string

fun str_exn :: "exn \<Rightarrow> string" where
  "str_exn (Exception msg) = msg"

text \<open>\<^verbatim>\<open>try: body  except Exception as e: handler(e)\<close>\<close>

definition try_except :: "exn + 'a \<Rightarrow> (exn \<Rightarrow> exn + 'a) \<Rightarrow> exn + 'a" where
  "try_except body handler = (case body of Inl e \<Rightarrow> handler e | Inr v \<Rightarrow> Inr v)"

text \<open>Sequencing of calls that may raise: the first exception ends the block.\<close>

definition bind_exn :: "exn + 'a \<Rightarrow> ('a \<Rightarrow> exn + 'b) \<Rightarrow> exn + 'b" where
  "bind_exn m f = (case m of Inl e \<Rightarrow> Inl e | Inr v \<Rightarrow> f v)"

section \<open>Constants of \<^verbatim>\<open>screenshot_module.py\<close>\<close>

definition DEFAULT_DURATION :: int where
  "DEFAULT_DURATION = 60"

definition DEFAULT_INTERVAL :: int where
  "DEFAULT_INTERVAL = 5"

definition DEFAULT_SIMILARITY_THRESHOLD :: int where
  "DEFAULT_SIMILARITY_THRESHOLD = 95"

definition MIN_REGION_SIZE :: int where
  "MIN_REGION_SIZE = 1"

section \<open>The object state of \<^verbatim>\<open>ScreenshotCapture\<close>\<close>

record ScreenshotCapture =
  save_path :: "string option"
  duration :: int
  interval :: int
  region :: "int list option"
  is_running :: bool
  similarity_threshold :: int
  last_screenshot_path :: "string option"

text \<open>\<^verbatim>\<open>__init__\<close>\<close>

definition init :: ScreenshotCapture where
  "init = \<lparr> save_path = None, duration = DEFAULT_DURATION, interval = DEFAULT_INTERVAL,
            region = None, is_running = False,
            similarity_threshold = DEFAULT_SIMILARITY_THRESHOLD,
            last_screenshot_path = None \<rparr>"

text \<open>\<^verbatim>\<open>setup(save_path, duration, interval, region, similarity_threshold)\<close>: the five
  assignments and the reset of \<^verbatim>\<open>last_screenshot_path\<close>; \<^verbatim>\<open>is_running\<close> is not touched.
  (The name \<open>setup\<close> is an Isabelle keyword.)\<close>

definition setup_capture ::
  "ScreenshotCapture \<Rightarrow> string \<Rightarrow> int \<Rightarrow> int \<Rightarrow> int list option \<Rightarrow> int \<Rightarrow> ScreenshotCapture"
where
  "setup_capture self save_path' duration' interval' region' similarity_threshold' =
     self\<lparr> save_path := Some save_path',
           duration := duration',
           interval := interval',
           region := region',
           similarity_threshold := similarity_threshold',
           last_screenshot_path := None \<rparr>"

text \<open>\<^verbatim>\<open>stop\<close>\<close>

definition stop :: "ScreenshotCapture \<Rightarrow> ScreenshotCapture" where
  "stop self = self\<lparr> is_running := False \<rparr>"

section \<open>\<^verbatim>\<open>_validate_region\<close>\<close>

text \<open>
  \<^verbatim>\<open>x, y, width, height = region\<close> raises \<^verbatim>\<open>ValueError\<close> unless the list has exactly four
  elements. \<^verbatim>\<open>pyautogui.size()\<close> is the argument \<open>screen_size\<close>, as (width, height).
\<close>

definition validate_region :: "int \<times> int \<Rightarrow> int list \<Rightarrow> exn + (int \<times> int \<times> int \<times> int)" where
  "validate_region screen_size rgn =
     (case rgn of
        [x, y, width, height] \<Rightarrow>
          (let screen_width = fst screen_size;
               screen_height = snd screen_size;
               x = max 0 (min x (screen_width - 1));
               y = max 0 (min y (screen_height - 1));
               max_width = screen_width - x;
               max_height = screen_height - y;
               width = max MIN_REGION_SIZE (min width max_width);
               height = max MIN_REGION_SIZE (min height max_height)
           in Inr (x, y, width, height))
      | [] \<Rightarrow> Inl (Exception ''not enough values to unpack (expected 4, got 0)'')
      | [_] \<Rightarrow> Inl (Exception ''not enough values to unpack (expected 4, got 1)'')
      | [_, _] \<Rightarrow> Inl (Exception ''not enough values to unpack (expected 4, got 2)'')
      | [_, _, _] \<Rightarrow> Inl (Exception ''not enough values to unpack (expected 4, got 3)'')
      | _ \<Rightarrow> Inl (Exception ''too many values to unpack (expected 4)''))"

text \<open>The returned tuple, passed again as a region.\<close>

fun region_of_tuple :: "int \<times> int \<times> int \<times> int \<Rightarrow> int list" where
  "region_of_tuple (x, y, width, height) = [x, y, width, height]"

text \<open>A rectangle that lies within a screen of the given size.\<close>

definition in_bounds :: "int \<times> int \<Rightarrow> int \<times> int \<times> int \<times> int \<Rightarrow> bool" where
  "in_bounds screen_size r =
     (case r of (x, y, width, height) \<Rightarrow>
        0 \<le> x \<and> x \<le> fst screen_size - 1 \<and>
        0 \<le> y \<and> y \<le> snd screen_size - 1 \<and>
        1 \<le> width \<and> width \<le> fst screen_size - x \<and>
        1 \<le> height \<and> height \<le> snd screen_size - y)"

section \<open>The environment of a capture\<close>

text \<open>
  The file system maps the path of each existing file to its content, an image of type
  \<open>'img\<close>. The libraries the module calls (\<^verbatim>\<open>datetime\<close>, \<^verbatim>\<open>os.path\<close>, \<^verbatim>\<open>pyautogui\<close>, \<^verbatim>\<open>PIL\<close>,
  \<^verbatim>\<open>cv2\<close>, \<^verbatim>\<open>skimage\<close>) are parameters, collected in one record; \<open>'arr\<close> is the type of
  decoded pixel arrays.
\<close>

type_synonym 'img filesystem = "string \<rightharpoonup> 'img"

record ('img, 'arr) env =
  now_stamp :: string
    \<comment> \<open>\<^verbatim>\<open>datetime.now().strftime("%Y%m%d_%H%M%S_%f")[:-3]\<close>\<close>
  path_join :: "string \<Rightarrow> string \<Rightarrow> string"
    \<comment> \<open>\<^verbatim>\<open>os.path.join\<close>\<close>
  screen_size :: "int \<times> int"
    \<comment> \<open>\<^verbatim>\<open>pyautogui.size()\<close>, as (width, height)\<close>
  screenshot :: "(int \<times> int \<times> int \<times> int) option \<Rightarrow> exn + 'img"
    \<comment> \<open>\<^verbatim>\<open>pyautogui.screenshot(region=...)\<close>; \<open>None\<close> is the call without a region\<close>
  save_error :: "string \<Rightarrow> exn option"
    \<comment> \<open>whether \<^verbatim>\<open>Image.save(path)\<close> raises; a save that raises leaves no file\<close>
  decode :: "'img \<Rightarrow> 'arr option"
    \<comment> \<open>\<^verbatim>\<open>cv2.imread\<close> on an existing file: \<open>None\<close> when it cannot be decoded\<close>
  cvtColor :: "'arr \<Rightarrow> exn + 'arr"
    \<comment> \<open>\<^verbatim>\<open>cv2.cvtColor(img, cv2.COLOR_BGR2GRAY)\<close>\<close>
  shape :: "'arr \<Rightarrow> nat list"
    \<comment> \<open>\<^verbatim>\<open>ndarray.shape\<close>\<close>
  resize :: "'arr \<Rightarrow> nat \<times> nat \<Rightarrow> exn + 'arr"
    \<comment> \<open>\<^verbatim>\<open>cv2.resize(img, (w, h))\<close>\<close>
  ssim :: "'arr \<Rightarrow> 'arr \<Rightarrow> exn + real"
    \<comment> \<open>\<^verbatim>\<open>skimage.metrics.structural_similarity\<close>\<close>
  print_out :: "string \<Rightarrow> exn option"
    \<comment> \<open>\<^verbatim>\<open>print(text)\<close>: the exception it raises, \<open>None\<close> when it returns\<close>

text \<open>\<^verbatim>\<open>cv2.imread(path)\<close>: \<^verbatim>\<open>None\<close> for a missing or an undecodable file.\<close>

definition imread :: "('img, 'arr) env \<Rightarrow> 'img filesystem \<Rightarrow> string \<Rightarrow> 'arr option" where
  "imread E fs path = (case fs path of None \<Rightarrow> None | Some file \<Rightarrow> decode E file)"

text \<open>\<^verbatim>\<open>os.path.exists(path)\<close>\<close>

definition path_exists :: "'img filesystem \<Rightarrow> string \<Rightarrow> bool" where
  "path_exists fs path = (fs path \<noteq> None)"

text \<open>\<^verbatim>\<open>os.remove(path)\<close>: raises \<^verbatim>\<open>FileNotFoundError\<close> for a missing file; removing an existing
  file succeeds. (The message quotes the path; character 39 is the single quote.)\<close>

definition os_remove :: "'img filesystem \<Rightarrow> string \<Rightarrow> exn + 'img filesystem" where
  "os_remove fs path =
     (if path_exists fs path then Inr (fs(path := None))
      else Inl (Exception (''[Errno 2] No such file or directory: '' @
                             [char_of (39 :: nat)] @ path @ [char_of (39 :: nat)])))"

text \<open>\<^verbatim>\<open>t[i]\<close> on a shape tuple, for an index that is not negative.\<close>

definition shape_at :: "nat list \<Rightarrow> nat \<Rightarrow> exn + nat" where
  "shape_at s i = (if i < length s then Inr (s ! i) else Inl (Exception ''tuple index out of range''))"

section \<open>\<^verbatim>\<open>_resize_images_to_match\<close> and \<^verbatim>\<open>calculate_similarity\<close>\<close>

definition resize_images_to_match ::
  "('img, 'arr) env \<Rightarrow> 'arr \<Rightarrow> 'arr \<Rightarrow> exn + ('arr \<times> 'arr)"
where
  "resize_images_to_match E img1 img2 =
     (if shape E img1 \<noteq> shape E img2 then
        bind_exn (shape_at (shape E img1) 0) (\<lambda>h1.
        bind_exn (shape_at (shape E img2) 0) (\<lambda>h2.
        bind_exn (shape_at (shape E img1) 1) (\<lambda>w1.
        bind_exn (shape_at (shape E img2) 1) (\<lambda>w2.
        let h = min h1 h2; w = min w1 w2 in
        bind_exn (resize E img1 (w, h)) (\<lambda>img1'.
        bind_exn (resize E img2 (w, h)) (\<lambda>img2'.
        Inr (img1', img2')))))))
      else Inr (img1, img2))"

text \<open>The body of the \<^verbatim>\<open>try\<close> block of \<^verbatim>\<open>calculate_similarity\<close>.\<close>

definition calculate_similarity_body ::
  "('img, 'arr) env \<Rightarrow> 'img filesystem \<Rightarrow> string \<Rightarrow> string \<Rightarrow> exn + real"
where
  "calculate_similarity_body E fs image1_path image2_path =
     (case (imread E fs image1_path, imread E fs image2_path) of
        (Some img1, Some img2) \<Rightarrow>
          bind_exn (cvtColor E img1) (\<lambda>gray1.
          bind_exn (cvtColor E img2) (\<lambda>gray2.
          bind_exn (resize_images_to_match E gray1 gray2) (\<lambda>(gray1', gray2').
          bind_exn (ssim E gray1' gray2') (\<lambda>similarity_index.
          Inr (similarity_index * 100)))))
      | _ \<Rightarrow> Inr 0)"

text \<open>The UTF-8 bytes of the text that the handler of \<^verbatim>\<open>calculate_similarity\<close> prints before
  the exception (Japanese for "similarity computation error"), ending in a colon and a
  space.\<close>

definition similarity_print_prefix :: string where
  "similarity_print_prefix = map char_of
     [233, 161, 158, 228, 188, 188, 229, 186, 166, 232, 168, 136, 231, 174, 151, 227, 130, 168,
      227, 131, 169, 227, 131, 188, 58, 32 :: nat]"

text \<open>
  \<^verbatim>\<open>calculate_similarity\<close>: the handler prints the exception and returns \<^verbatim>\<open>0.0\<close>. An exception
  that \<^verbatim>\<open>print\<close> raises inside the handler leaves the function.
\<close>

definition calculate_similarity ::
  "('img, 'arr) env \<Rightarrow> 'img filesystem \<Rightarrow> string \<Rightarrow> string \<Rightarrow> exn + real"
where
  "calculate_similarity E fs image1_path image2_path =
     try_except (calculate_similarity_body E fs image1_path image2_path)
       (\<lambda>e. case print_out E (similarity_print_prefix @ str_exn e) of
               Some e' \<Rightarrow> Inl e'
             | None \<Rightarrow> Inr 0)"

section \<open>\<^verbatim>\<open>_check_and_handle_duplicate\<close>, \<^verbatim>\<open>_take_screenshot\<close> and \<^verbatim>\<open>capture\<close>\<close>

text \<open>
  A call returns the tuple \<^verbatim>\<open>(filename, similarity)\<close> together with the updated object and
  file system. \<^verbatim>\<open>self.last_screenshot_path and os.path.exists(...)\<close> tests the path for
  \<^verbatim>\<open>None\<close> and for the empty string first.
\<close>

type_synonym 'img capture_result =
  "(string option \<times> real option) \<times> ScreenshotCapture \<times> 'img filesystem"

definition check_and_handle_duplicate ::
  "('img, 'arr) env \<Rightarrow> ScreenshotCapture \<Rightarrow> 'img filesystem \<Rightarrow> string \<Rightarrow> string
     \<Rightarrow> exn + 'img capture_result"
where
  "check_and_handle_duplicate E self fs filename filepath =
     (let keep = Inr ((Some filename, None), self\<lparr>last_screenshot_path := Some filepath\<rparr>, fs) in
      case last_screenshot_path self of
        None \<Rightarrow> keep
      | Some prev \<Rightarrow>
          if prev \<noteq> [] \<and> path_exists fs prev then
            bind_exn (calculate_similarity E fs prev filepath)
              (\<lambda>similarity.
                 if real_of_int (similarity_threshold self) \<le> similarity then
                   bind_exn (os_remove fs filepath)
                     (\<lambda>fs'. Inr ((None, Some similarity), self, fs'))
                 else keep)
          else keep)"

text \<open>\<^verbatim>\<open>if self.region:\<close> is false for \<^verbatim>\<open>None\<close> and for an empty list.\<close>

definition take_screenshot :: "('img, 'arr) env \<Rightarrow> ScreenshotCapture \<Rightarrow> exn + 'img" where
  "take_screenshot E self =
     (case region self of
        None \<Rightarrow> screenshot E None
      | Some [] \<Rightarrow> screenshot E None
      | Some rgn \<Rightarrow>
          bind_exn (validate_region (screen_size E) rgn)
            (\<lambda>validated_region. screenshot E (Some validated_region)))"

text \<open>The UTF-8 bytes of the message prefix of the exception that \<^verbatim>\<open>capture\<close> raises
  (Japanese for "failed to take the screenshot"), ending in a colon and a space.\<close>

definition capture_error_prefix :: string where
  "capture_error_prefix = map char_of
     [227, 130, 185, 227, 130, 175, 227, 131, 170, 227, 131, 188, 227, 131, 179, 227, 130, 183,
      227, 131, 167, 227, 131, 131, 227, 131, 136, 229, 143, 150, 229, 190, 151, 227, 129, 171,
      229, 164, 177, 230, 149, 151, 227, 129, 151, 227, 129, 190, 227, 129, 151, 227, 129, 159,
      58, 32 :: nat]"

text \<open>
  The body of the \<^verbatim>\<open>try\<close> block of \<^verbatim>\<open>capture\<close>: the file name, the path and the file system
  with the new file written. \<^verbatim>\<open>os.path.join(None, ...)\<close> raises \<^verbatim>\<open>TypeError\<close>.
\<close>

definition capture_try ::
  "('img, 'arr) env \<Rightarrow> ScreenshotCapture \<Rightarrow> 'img filesystem
     \<Rightarrow> exn + (string \<times> string \<times> 'img filesystem)"
where
  "capture_try E self fs =
     (let timestamp = now_stamp E;
          filename = ''screenshot_'' @ timestamp @ ''.png''
      in case save_path self of
           None \<Rightarrow> Inl (Exception ''expected str, bytes or os.PathLike object, not NoneType'')
         | Some dir \<Rightarrow>
             (let filepath = path_join E dir filename in
              bind_exn (take_screenshot E self) (\<lambda>shot.
                case save_error E filepath of
                  Some e \<Rightarrow> Inl e
                | None \<Rightarrow> Inr (filename, filepath, fs(filepath \<mapsto> shot)))))"

text \<open>The UTF-8 bytes of the text that the handler of \<^verbatim>\<open>capture\<close> prints before the exception
  (Japanese for "screenshot error"), ending in a colon and a space.\<close>

definition capture_print_prefix :: string where
  "capture_print_prefix = map char_of
     [227, 130, 185, 227, 130, 175, 227, 131, 170, 227, 131, 188, 227, 131, 179, 227, 130, 183,
      227, 131, 167, 227, 131, 131, 227, 131, 136, 229, 143, 150, 229, 190, 151, 227, 130, 168,
      227, 131, 169, 227, 131, 188, 58, 32 :: nat]"

text \<open>
  \<^verbatim>\<open>capture\<close>: the handler prints the exception and raises a new one with the prefixed
  message; an exception that \<^verbatim>\<open>print\<close> raises inside the handler is raised instead.
\<close>

definition capture ::
  "('img, 'arr) env \<Rightarrow> ScreenshotCapture \<Rightarrow> 'img filesystem \<Rightarrow> exn + 'img capture_result"
where
  "capture E self fs =
     bind_exn
       (try_except (capture_try E self fs)
          (\<lambda>e. case print_out E (capture_print_prefix @ str_exn e) of
                  Some e' \<Rightarrow> Inl e'
                | None \<Rightarrow> Inl (Exception (capture_error_prefix @ str_exn e))))
       (\<lambda>(filename, filepath, fs'). check_and_handle_duplicate E self fs' filename filepath)"

section \<open>The worker loop \<^verbatim>\<open>_capture_worker\<close> of \<^verbatim>\<open>desktop_app.py\<close>\<close>

text \<open>
  The worker hands every update to the user interface with \<^verbatim>\<open>self.app.root.after(0, f, args)\<close>.
  The model records these calls, in order; one constructor for each method \<open>f\<close> of the
  application, with the arguments the worker passes.
\<close>

datatype ui_call =
    Update_progress int int int real string
      \<comment> \<open>\<^verbatim>\<open>update_progress(count, int(elapsed), int(remaining), progress, filename)\<close>\<close>
  | Update_duplicate_status "real option"
      \<comment> \<open>\<^verbatim>\<open>update_duplicate_status(similarity)\<close>\<close>
  | Update_time_info int int real
      \<comment> \<open>\<^verbatim>\<open>update_time_info(int(elapsed), int(remaining), progress)\<close>\<close>
  | Show_error string
      \<comment> \<open>\<^verbatim>\<open>show_error(str(e))\<close>\<close>
  | Capture_complete int int
      \<comment> \<open>\<^verbatim>\<open>capture_complete(count, duplicate_count)\<close>\<close>

text \<open>The progress value a call carries, if it carries one.\<close>

fun progress_of :: "ui_call \<Rightarrow> real option" where
  "progress_of (Update_progress c e r p f) = Some p"
| "progress_of (Update_time_info e r p) = Some p"
| "progress_of (Update_duplicate_status s) = None"
| "progress_of (Show_error m) = None"
| "progress_of (Capture_complete c d) = None"

fun is_kept_call :: "ui_call \<Rightarrow> bool" where
  "is_kept_call (Update_progress c e r p f) = True"
| "is_kept_call _ = False"

fun is_duplicate_call :: "ui_call \<Rightarrow> bool" where
  "is_duplicate_call (Update_duplicate_status s) = True"
| "is_duplicate_call _ = False"

fun is_complete_call :: "ui_call \<Rightarrow> bool" where
  "is_complete_call (Capture_complete c d) = True"
| "is_complete_call _ = False"

text \<open>
  What one iteration of the loop observes of the outside world: the value of
  \<^verbatim>\<open>self.is_capturing\<close> read by the \<^verbatim>\<open>while\<close> test (the user interface thread clears the flag),
  the environment of the call of \<^verbatim>\<open>capture\<close>, and the value of \<^verbatim>\<open>time.time()\<close> read after it.
\<close>

record ('img, 'arr) tick =
  is_capturing :: bool
  tick_env :: "('img, 'arr) env"
  time_now :: real

text \<open>The variables of the worker: the capture object, the file system, the two counters
  and the calls scheduled so far.\<close>

record 'img worker =
  screenshot_capture :: ScreenshotCapture
  files :: "'img filesystem"
  count :: int
  duplicate_count :: int
  scheduled :: "ui_call list"

text \<open>\<^verbatim>\<open>int(x)\<close> on a float truncates towards zero.\<close>

definition py_int :: "real \<Rightarrow> int" where
  "py_int x = (if 0 \<le> x then \<lfloor>x\<rfloor> else \<lceil>x\<rceil>)"

text \<open>
  One iteration of the \<^verbatim>\<open>while\<close> body, after the test: the new variables, and whether the
  loop is left (\<^verbatim>\<open>break\<close>). An exception raised inside the \<^verbatim>\<open>try\<close> is caught by
  \<^verbatim>\<open>except Exception\<close>, which schedules \<^verbatim>\<open>show_error(str(e))\<close> and breaks; what the body
  did before the exception stays done. Apart from \<^verbatim>\<open>capture\<close>, two statements of the body
  can raise: the division \<^verbatim>\<open>elapsed / duration\<close> (\<^verbatim>\<open>ZeroDivisionError\<close> when \<^verbatim>\<open>duration\<close> is 0) and
  \<^verbatim>\<open>time.sleep(interval)\<close> (\<^verbatim>\<open>ValueError\<close> when \<^verbatim>\<open>interval\<close> is negative).
\<close>

definition loop_body ::
  "real \<Rightarrow> ('img, 'arr) tick \<Rightarrow> 'img worker \<Rightarrow> 'img worker \<times> bool"
where
  "loop_body start_time t w =
     (case capture (tick_env t) (screenshot_capture w) (files w) of
        Inl e \<Rightarrow> (w\<lparr>scheduled := scheduled w @ [Show_error (str_exn e)]\<rparr>, True)
      | Inr ((filename, similarity), self', fs') \<Rightarrow>
          (let w1 = w\<lparr>screenshot_capture := self', files := fs'\<rparr>;
               elapsed = time_now t - start_time;
               remaining = real_of_int (duration self') - elapsed
           in if duration self' = 0 then
                (w1\<lparr>scheduled := scheduled w1 @ [Show_error ''float division by zero'']\<rparr>, True)
              else
                (let progress = (elapsed / real_of_int (duration self')) * 100;
                     w2 = (case filename of
                             None \<Rightarrow>
                               w1\<lparr>duplicate_count := duplicate_count w1 + 1,
                                   scheduled := scheduled w1 @
                                     [Update_duplicate_status similarity,
                                      Update_time_info (py_int elapsed) (py_int remaining) progress]\<rparr>
                           | Some name \<Rightarrow>
                               w1\<lparr>count := count w1 + 1,
                                   scheduled := scheduled w1 @
                                     [Update_progress (count w1 + 1) (py_int elapsed)
                                        (py_int remaining) progress name]\<rparr>)
                 in if real_of_int (duration self') \<le> elapsed then (w2, True)
                    else if interval self' < 0 then
                      (w2\<lparr>scheduled := scheduled w2 @
                            [Show_error ''sleep length must be non-negative'']\<rparr>, True)
                    else (w2, False))))"

text \<open>
  The \<^verbatim>\<open>while\<close> loop, run on the observations of its iterations. \<open>Finished w\<close>: the loop was
  left with the variables \<open>w\<close>. \<open>Running w\<close>: every given observation was consumed and
  the loop is at its test again, with the variables \<open>w\<close>.
\<close>

datatype 'w run = Running 'w | Finished 'w

fun worker_loop ::
  "real \<Rightarrow> ('img, 'arr) tick list \<Rightarrow> 'img worker \<Rightarrow> 'img worker run"
where
  "worker_loop start_time [] w = Running w"
| "worker_loop start_time (t # ts) w =
     (if \<not> is_capturing t then Finished w
      else case loop_body start_time t w of
             (w', leave) \<Rightarrow> if leave then Finished w' else worker_loop start_time ts w')"

text \<open>\<^verbatim>\<open>_capture_worker\<close>: the counters start at 0, and \<^verbatim>\<open>capture_complete\<close> is scheduled after
  the loop.\<close>

definition worker_start :: "ScreenshotCapture \<Rightarrow> 'img filesystem \<Rightarrow> 'img worker" where
  "worker_start self fs =
     \<lparr> screenshot_capture = self, files = fs, count = 0, duplicate_count = 0, scheduled = [] \<rparr>"

definition schedule_complete :: "'img worker \<Rightarrow> 'img worker" where
  "schedule_complete w = w\<lparr>scheduled := scheduled w @ [Capture_complete (count w) (duplicate_count w)]\<rparr>"

definition capture_worker ::
  "real \<Rightarrow> ('img, 'arr) tick list \<Rightarrow> ScreenshotCapture \<Rightarrow> 'img filesystem \<Rightarrow> 'img worker run"
where
  "capture_worker start_time ticks self fs =
     (case worker_loop start_time ticks (worker_start self fs) of
        Running w \<Rightarrow> Running w
      | Finished w \<Rightarrow> Finished (schedule_complete w))"

text \<open>
  The counters agree with the calls scheduled so far, and \<^verbatim>\<open>capture_complete\<close> is not among
  them: an invariant of the loop.
\<close>

definition counted :: "'img worker \<Rightarrow> bool" where
  "counted w \<longleftrightarrow>
     count w = int (length (filter is_kept_call (scheduled w)))
     \<and> duplicate_count w = int (length (filter is_duplicate_call (scheduled w)))
     \<and> filter is_complete_call (scheduled w) = []"

section \<open>A concrete environment\<close>

text \<open>
  For evaluating the model: images are natural numbers, a file decodes to its content
  unless the content is 0 (a corrupted file), all arrays have the shape of a 1080 x 1920
  gray image, and the similarity index of two arrays is 1 when they are equal and 2/5
  otherwise. The screen shows \<open>pixels\<close> at the time \<open>stamp\<close>, and \<^verbatim>\<open>print\<close> returns.
\<close>

definition demo_env :: "string \<Rightarrow> nat \<Rightarrow> (nat, nat) env" where
  "demo_env stamp pixels =
     \<lparr> now_stamp = stamp,
       path_join = (\<lambda>dir name. dir @ ''/'' @ name),
       screen_size = (1920, 1080),
       screenshot = (\<lambda>r. Inr pixels),
       save_error = (\<lambda>path. None),
       decode = (\<lambda>file. if file = 0 then None else Some file),
       cvtColor = (\<lambda>img. Inr img),
       shape = (\<lambda>img. [1080, 1920]),
       resize = (\<lambda>img dsize. Inr img),
       ssim = (\<lambda>a b. Inr (if a = b then 1 else 2 / 5)),
       print_out = (\<lambda>text. None) \<rparr>"

text \<open>The same, with a screen capture primitive that fails.\<close>

definition broken_env :: "string \<Rightarrow> (nat, nat) env" where
  "broken_env stamp = (demo_env stamp 0)\<lparr>screenshot := (\<lambda>r. Inl (Exception ''screen grab failed''))\<rparr>"

text \<open>The same, with a similarity computation that raises.\<close>

definition failing_ssim_env :: "string \<Rightarrow> nat \<Rightarrow> (nat, nat) env" where
  "failing_ssim_env stamp pixels =
     (demo_env stamp pixels)\<lparr>ssim := (\<lambda>a b. Inl (Exception ''win_size exceeds image extent''))\<rparr>"

text \<open>The same, with a similarity computation that raises and a console on which \<^verbatim>\<open>print\<close>
  raises.\<close>

definition unprintable_env :: "string \<Rightarrow> nat \<Rightarrow> (nat, nat) env" where
  "unprintable_env stamp pixels =
     (failing_ssim_env stamp pixels)
       \<lparr>print_out := (\<lambda>text. Some (Exception ''codec cannot encode characters''))\<rparr>"

text \<open>An object configured for the directory \<open>out\<close>, 10 seconds, every 5 seconds, full screen,
  threshold 95.\<close>

definition demo_capture :: ScreenshotCapture where
  "demo_capture = setup_capture init ''out'' 10 5 None 95"

text \<open>The object and the file system after a first capture, of the pixels 7, was kept.\<close>

definition demo_kept :: ScreenshotCapture where
  "demo_kept = demo_capture\<lparr>last_screenshot_path := Some ''out/screenshot_t1.png''\<rparr>"

definition demo_files :: "nat filesystem" where
  "demo_files = [''out/screenshot_t1.png'' \<mapsto> 7]"

text \<open>The same object with the similarity threshold 0.\<close>

definition demo_kept0 :: ScreenshotCapture where
  "demo_kept0 = demo_kept\<lparr>similarity_threshold := 0\<rparr>"

text \<open>The same file system with the kept file corrupted.\<close>

definition corrupt_files :: "nat filesystem" where
  "corrupt_files = [''out/screenshot_t1.png'' \<mapsto> 0]"

text \<open>Observations of loop iterations: the flag is set, and the clock shows \<open>now\<close>.\<close>

definition demo_tick :: "string \<Rightarrow> nat \<Rightarrow> real \<Rightarrow> (nat, nat) tick" where
  "demo_tick stamp pixels now =
     \<lparr> is_capturing = True, tick_env = demo_env stamp pixels, time_now = now \<rparr>"

definition broken_tick :: "string \<Rightarrow> real \<Rightarrow> (nat, nat) tick" where
  "broken_tick stamp now =
     \<lparr> is_capturing = True, tick_env = broken_env stamp, time_now = now \<rparr>"

text \<open>The worker after the first of two iterations: one capture kept, 1 second after the start.\<close>

definition demo_worker :: "nat worker" where
  "demo_worker =
     \<lparr> screenshot_capture = demo_kept, files = demo_files, count = 1, duplicate_count = 0,
        scheduled = [Update_progress 1 1 9 10 ''screenshot_t1.png''] \<rparr>"

section \<open>Exceptions\<close>

lemma bind_exn_Inr [simp]: "bind_exn (Inr v) f = f v"
  by (simp add: bind_exn_def)

lemma bind_exn_Inl [simp]: "bind_exn (Inl e) f = Inl e"
  by (simp add: bind_exn_def)

lemma bind_exn_eq_Inr: "bind_exn m f = Inr r \<longleftrightarrow> (\<exists>v. m = Inr v \<and> f v = Inr r)"
  by (cases m) simp_all

lemma try_except_Inr [simp]: "try_except (Inr v) h = Inr v"
  by (simp add: try_except_def)

lemma try_except_Inl [simp]: "try_except (Inl e) h = h e"
  by (simp add: try_except_def)

section \<open>Region clamping\<close>

lemma validate_region_four:
  "validate_region (sw, sh) [x, y, w, h] =
     Inr (max 0 (min x (sw - 1)), max 0 (min y (sh - 1)),
          max 1 (min w (sw - max 0 (min x (sw - 1)))),
          max 1 (min h (sh - max 0 (min y (sh - 1)))))"
  by (simp add: validate_region_def MIN_REGION_SIZE_def Let_def)

text \<open>
  Claim C4. A rectangle already within the screen bounds is returned unchanged by
  \<^verbatim>\<open>_validate_region\<close>, and validating the returned rectangle again gives the same
  rectangle: clamping is idempotent on in-bounds input.
\<close>

theorem validate_region_idempotent_in_bounds:
  assumes "in_bounds (sw, sh) (x, y, w, h)"
  shows "validate_region (sw, sh) [x, y, w, h] = Inr (x, y, w, h)
       \<and> bind_exn (validate_region (sw, sh) [x, y, w, h])
                  (\<lambda>r. validate_region (sw, sh) (region_of_tuple r))
         = validate_region (sw, sh) [x, y, w, h]"
proof -
  from assms have once: "validate_region (sw, sh) [x, y, w, h] = Inr (x, y, w, h)"
    unfolding validate_region_four by (auto simp: in_bounds_def)
  then show ?thesis
    by simp
qed

theorem validate_region_idempotent_in_bounds_witness:
  "in_bounds (1920, 1080) (100, 200, 640, 480)
   \<and> validate_region (1920, 1080) [100, 200, 640, 480] = Inr (100, 200, 640, 480)
   \<and> bind_exn (validate_region (1920, 1080) [100, 200, 640, 480])
              (\<lambda>r. validate_region (1920, 1080) (region_of_tuple r))
     = validate_region (1920, 1080) [100, 200, 640, 480]"
proof -
  have h: "in_bounds (1920, 1080) (100, 200, 640, 480)"
    by (simp add: in_bounds_def)
  from validate_region_idempotent_in_bounds [OF h] h show ?thesis
    by blast
qed

text \<open>
  Claim C5. On a 1920 x 1080 screen the region \<open>[-5, -5, 100000, 100000]\<close> is clamped to
  \<open>(0, 0, 1920, 1080)\<close>.
\<close>

theorem validate_region_scenario_D:
  "validate_region (1920, 1080) [-5, -5, 100000, 100000] = Inr (0, 0, 1920, 1080)"
  by (simp add: validate_region_four)

text \<open>
  Claim C10. For every four-element region and every screen of at least 1 x 1 pixels,
  \<^verbatim>\<open>_validate_region\<close> returns a rectangle within the screen bounds, of size at least
  1 x 1.
\<close>

theorem validate_region_in_bounds:
  assumes "1 \<le> sw" and "1 \<le> sh"
  shows "\<exists>x' y' w' h'. validate_region (sw, sh) [x, y, w, h] = Inr (x', y', w', h')
          \<and> 0 \<le> x' \<and> x' \<le> sw - 1 \<and> 0 \<le> y' \<and> y' \<le> sh - 1
          \<and> 1 \<le> w' \<and> w' \<le> sw - x' \<and> 1 \<le> h' \<and> h' \<le> sh - y'"
  unfolding validate_region_four using assms by auto

theorem validate_region_in_bounds_witness:
  "(1::int) \<le> 800 \<and> (1::int) \<le> 600
   \<and> (\<exists>x' y' w' h'. validate_region (800, 600) [900, -3, -7, 5000] = Inr (x', y', w', h')
          \<and> 0 \<le> x' \<and> x' \<le> 800 - 1 \<and> 0 \<le> y' \<and> y' \<le> 600 - 1
          \<and> 1 \<le> w' \<and> w' \<le> 800 - x' \<and> 1 \<le> h' \<and> h' \<le> 600 - y')"
proof -
  have a: "(1::int) \<le> 800" and b: "(1::int) \<le> 600"
    by simp_all
  from validate_region_in_bounds [OF a b, of 900 "-3" "-7" 5000] a b show ?thesis
    by blast
qed

section \<open>The similarity comparator\<close>

lemma calculate_similarity_body_returns:
  "calculate_similarity_body E fs p q = Inr s \<Longrightarrow> calculate_similarity E fs p q = Inr s"
  by (simp add: calculate_similarity_def)

lemma calculate_similarity_body_raises:
  "calculate_similarity_body E fs p q = Inl e \<Longrightarrow>
   calculate_similarity E fs p q =
     (case print_out E (similarity_print_prefix @ str_exn e) of
        Some e' \<Rightarrow> Inl e'
      | None \<Rightarrow> Inr 0)"
  by (simp add: calculate_similarity_def)

lemma calculate_similarity_body_undecoded:
  "imread E fs p = None \<or> imread E fs q = None \<Longrightarrow> calculate_similarity_body E fs p q = Inr 0"
  by (auto simp: calculate_similarity_body_def split: option.splits)

section \<open>One capture\<close>

lemma capture_try_Inr:
  assumes "capture_try E self fs = Inr (filename, filepath, fs1)"
  shows "\<exists>dir shot. save_path self = Some dir
           \<and> filename = ''screenshot_'' @ now_stamp E @ ''.png''
           \<and> filepath = path_join E dir filename
           \<and> take_screenshot E self = Inr shot
           \<and> save_error E filepath = None
           \<and> fs1 = fs(filepath \<mapsto> shot)"
  using assms
  by (auto simp: capture_try_def Let_def bind_exn_eq_Inr split: option.splits)

lemma capture_after_try:
  assumes "capture_try E self fs = Inr (filename, filepath, fs1)"
  shows "capture E self fs = check_and_handle_duplicate E self fs1 filename filepath"
  using assms by (simp add: capture_def)

lemma capture_try_raises:
  assumes "capture_try E self fs = Inl e"
    and "print_out E (capture_print_prefix @ str_exn e) = None"
  shows "capture E self fs = Inl (Exception (capture_error_prefix @ str_exn e))"
  using assms by (simp add: capture_def)

lemma capture_returns:
  assumes "capture E self fs = Inr r"
  shows "\<exists>filename filepath fs1.
           capture_try E self fs = Inr (filename, filepath, fs1)
           \<and> check_and_handle_duplicate E self fs1 filename filepath = Inr r"
proof (cases "capture_try E self fs")
  case (Inl e)
  with assms show ?thesis
    by (simp add: capture_def split: option.splits)
next
  case (Inr v)
  with assms show ?thesis
    by (cases v) (simp add: capture_def)
qed

lemma check_keep:
  assumes "last_screenshot_path self = None
         \<or> (\<exists>p. last_screenshot_path self = Some p \<and> (p = [] \<or> \<not> path_exists fs1 p))
         \<or> (\<exists>p s. last_screenshot_path self = Some p
               \<and> calculate_similarity E fs1 p filepath = Inr s
               \<and> s < real_of_int (similarity_threshold self))"
  shows "check_and_handle_duplicate E self fs1 filename filepath =
           Inr ((Some filename, None), self\<lparr>last_screenshot_path := Some filepath\<rparr>, fs1)"
  using assms
  by (auto simp: check_and_handle_duplicate_def Let_def split: option.splits)

lemma check_duplicate:
  assumes "last_screenshot_path self = Some prev" and "prev \<noteq> []" and "path_exists fs1 prev"
    and "calculate_similarity E fs1 prev filepath = Inr s"
    and "real_of_int (similarity_threshold self) \<le> s"
    and "path_exists fs1 filepath"
  shows "check_and_handle_duplicate E self fs1 filename filepath =
           Inr ((None, Some s), self, fs1(filepath := None))"
  using assms
  by (simp add: check_and_handle_duplicate_def Let_def os_remove_def)

lemma check_shapes:
  assumes "check_and_handle_duplicate E self fs1 filename filepath = Inr ((fn, sim), self', fs')"
  shows "(fn = Some filename \<and> sim = None
            \<and> self' = self\<lparr>last_screenshot_path := Some filepath\<rparr> \<and> fs' = fs1)
       \<or> (fn = None \<and> self' = self \<and> fs' = fs1(filepath := None)
            \<and> (\<exists>s. sim = Some s \<and> real_of_int (similarity_threshold self) \<le> s))"
  using assms
  by (auto simp: check_and_handle_duplicate_def Let_def os_remove_def bind_exn_eq_Inr
           split: option.splits if_splits)

section \<open>Evaluation in the concrete environment\<close>

lemmas demo_defs =
  demo_env_def demo_capture_def demo_kept_def demo_files_def setup_capture_def init_def
  broken_env_def failing_ssim_env_def unprintable_env_def demo_kept0_def

lemma demo_threshold: "similarity_threshold demo_kept = 95"
  by (simp add: demo_defs)

lemma demo_last: "last_screenshot_path demo_kept = Some ''out/screenshot_t1.png''"
  by (simp add: demo_defs)

lemma demo_duration: "duration demo_capture = 10" "duration demo_kept = 10"
  "interval demo_kept = 5"
  by (simp_all add: demo_defs)

lemma demo_capture_try:
  "capture_try (demo_env ''t2'' px) demo_kept demo_files =
     Inr (''screenshot_t2.png'', ''out/screenshot_t2.png'',
          demo_files(''out/screenshot_t2.png'' \<mapsto> px))"
  by (simp add: capture_try_def take_screenshot_def Let_def demo_defs)

lemma demo_similarity:
  "px \<noteq> 0 \<Longrightarrow>
   calculate_similarity (demo_env ''t2'' px) (demo_files(''out/screenshot_t2.png'' \<mapsto> px))
     ''out/screenshot_t1.png'' ''out/screenshot_t2.png'' = Inr (if px = 7 then 100 else 40)"
  by (simp add: calculate_similarity_def calculate_similarity_body_def imread_def
        resize_images_to_match_def demo_defs)

lemma demo_files_after:
  "path_exists (demo_files(''out/screenshot_t2.png'' \<mapsto> px)) ''out/screenshot_t1.png''"
  "path_exists (demo_files(''out/screenshot_t2.png'' \<mapsto> px)) ''out/screenshot_t2.png''"
  "(demo_files(''out/screenshot_t2.png'' \<mapsto> px))(''out/screenshot_t2.png'' := None) = demo_files"
  "\<not> path_exists demo_files ''out/screenshot_t2.png''"
  by (simp_all add: path_exists_def demo_files_def)

lemma demo_capture_duplicate:
  "capture (demo_env ''t2'' 7) demo_kept demo_files = Inr ((None, Some 100), demo_kept, demo_files)"
proof -
  have "check_and_handle_duplicate (demo_env ''t2'' 7) demo_kept
          (demo_files(''out/screenshot_t2.png'' \<mapsto> 7)) ''screenshot_t2.png''
          ''out/screenshot_t2.png''
        = Inr ((None, Some 100), demo_kept,
               (demo_files(''out/screenshot_t2.png'' \<mapsto> 7))(''out/screenshot_t2.png'' := None))"
    by (rule check_duplicate [OF demo_last])
       (simp_all add: demo_files_after demo_similarity demo_threshold)
  then show ?thesis
    by (simp only: capture_after_try [OF demo_capture_try] demo_files_after)
qed

lemma demo_first_capture:
  "capture (demo_env ''t1'' 7) demo_capture Map.empty =
     Inr ((Some ''screenshot_t1.png'', None), demo_kept, demo_files)"
proof -
  have "capture_try (demo_env ''t1'' 7) demo_capture Map.empty =
          Inr (''screenshot_t1.png'', ''out/screenshot_t1.png'', demo_files)"
    by (simp add: capture_try_def take_screenshot_def Let_def demo_defs)
  moreover have "last_screenshot_path demo_capture = None"
    by (simp add: demo_defs)
  ultimately show ?thesis
    by (simp add: capture_after_try check_keep demo_kept_def)
qed

lemma demo_broken_capture:
  "capture (broken_env ''t2'') demo_kept demo_files =
     Inl (Exception (capture_error_prefix @ ''screen grab failed''))"
proof -
  have "capture_try (broken_env ''t2'') demo_kept demo_files =
          Inl (Exception ''screen grab failed'')"
    by (simp add: capture_try_def take_screenshot_def Let_def demo_defs)
  moreover have "print_out (broken_env ''t2'') (capture_print_prefix @ ''screen grab failed'') = None"
    by (simp add: demo_defs)
  ultimately show ?thesis
    by (simp add: capture_try_raises)
qed

lemma corrupt_imread:
  "imread (demo_env st px) (corrupt_files(''out/screenshot_t2.png'' \<mapsto> px))
     ''out/screenshot_t1.png'' = None"
  by (simp add: imread_def demo_defs corrupt_files_def)

lemma failing_ssim_body:
  "calculate_similarity_body (failing_ssim_env ''t2'' 7)
     (demo_files(''out/screenshot_t2.png'' \<mapsto> 7)) ''out/screenshot_t1.png''
     ''out/screenshot_t2.png'' = Inl (Exception ''win_size exceeds image extent'')"
  by (simp add: calculate_similarity_body_def imread_def resize_images_to_match_def demo_defs)

section \<open>Claims about the comparator and about one capture\<close>

text \<open>
  Claim C3, as the code has it. The claim as stated fails in two ways, shown at concrete
  inputs below: an exception raised by the \<^verbatim>\<open>print\<close> of the handler leaves
  \<^verbatim>\<open>calculate_similarity\<close>, and with the threshold 0 the score 0 of an unreadable previous
  image counts as a duplicate, so the new capture is removed and the unreadable image
  stays the baseline.

  What holds: \<^verbatim>\<open>calculate_similarity\<close> returns 0, without raising, when one of the two
  images does not decode (the file is missing or unreadable); it returns 0 when a step of
  the computation raises and the handler's \<^verbatim>\<open>print\<close> returns; it returns a score whenever
  \<^verbatim>\<open>print\<close> returns for every exception of the body. For every threshold above 0, a
  previous image that is unreadable, or on which the computation fails in that way, does
  not stop the next capture from being kept.
\<close>

theorem calculate_similarity_degrades_to_zero:
  "(imread E fs p = None \<or> imread E fs q = None \<longrightarrow> calculate_similarity E fs p q = Inr 0)
   \<and> (\<forall>e. calculate_similarity_body E fs p q = Inl e
           \<and> print_out E (similarity_print_prefix @ str_exn e) = None
         \<longrightarrow> calculate_similarity E fs p q = Inr 0)
   \<and> ((\<forall>e. calculate_similarity_body E fs p q = Inl e
           \<longrightarrow> print_out E (similarity_print_prefix @ str_exn e) = None)
         \<longrightarrow> (\<exists>s. calculate_similarity E fs p q = Inr s))
   \<and> (\<forall>self filename.
         last_screenshot_path self = Some p \<and> 0 < similarity_threshold self
         \<and> (imread E fs p = None
              \<or> (\<exists>e. calculate_similarity_body E fs p q = Inl e
                     \<and> print_out E (similarity_print_prefix @ str_exn e) = None))
         \<longrightarrow> check_and_handle_duplicate E self fs filename q =
               Inr ((Some filename, None), self\<lparr>last_screenshot_path := Some q\<rparr>, fs))"
proof -
  have u: "calculate_similarity E fs p q = Inr 0"
    if "imread E fs p = None \<or> imread E fs q = None"
    using calculate_similarity_body_undecoded [OF that]
    by (rule calculate_similarity_body_returns)
  have x: "calculate_similarity E fs p q = Inr 0"
    if "calculate_similarity_body E fs p q = Inl e"
      and "print_out E (similarity_print_prefix @ str_exn e) = None"
    for e
    using that by (simp add: calculate_similarity_body_raises)
  have r: "\<exists>s. calculate_similarity E fs p q = Inr s"
    if "\<forall>e. calculate_similarity_body E fs p q = Inl e
           \<longrightarrow> print_out E (similarity_print_prefix @ str_exn e) = None"
  proof (cases "calculate_similarity_body E fs p q")
    case (Inl e)
    with that x show ?thesis by blast
  next
    case (Inr s)
    then show ?thesis by (simp add: calculate_similarity_body_returns)
  qed
  have k: "check_and_handle_duplicate E self fs filename q =
               Inr ((Some filename, None), self\<lparr>last_screenshot_path := Some q\<rparr>, fs)"
    if "last_screenshot_path self = Some p" and "0 < similarity_threshold self"
      and "imread E fs p = None
           \<or> (\<exists>e. calculate_similarity_body E fs p q = Inl e
                  \<and> print_out E (similarity_print_prefix @ str_exn e) = None)"
    for self filename
  proof (rule check_keep)
    from that(3) have "calculate_similarity E fs p q = Inr 0"
      using u x by blast
    with that(1,2) show "last_screenshot_path self = None
       \<or> (\<exists>p. last_screenshot_path self = Some p \<and> (p = [] \<or> \<not> path_exists fs p))
       \<or> (\<exists>p s. last_screenshot_path self = Some p \<and> calculate_similarity E fs p q = Inr s
             \<and> s < real_of_int (similarity_threshold self))"
      by auto
  qed
  from u x r k show ?thesis
    by blast
qed

theorem calculate_similarity_degrades_to_zero_witness:
  "imread (demo_env ''t2'' 7) (corrupt_files(''out/screenshot_t2.png'' \<mapsto> 7))
     ''out/screenshot_t1.png'' = None
   \<and> calculate_similarity (demo_env ''t2'' 7) (corrupt_files(''out/screenshot_t2.png'' \<mapsto> 7))
        ''out/screenshot_t1.png'' ''out/screenshot_t2.png'' = Inr 0
   \<and> last_screenshot_path demo_kept = Some ''out/screenshot_t1.png''
   \<and> 0 < similarity_threshold demo_kept
   \<and> check_and_handle_duplicate (demo_env ''t2'' 7) demo_kept
        (corrupt_files(''out/screenshot_t2.png'' \<mapsto> 7)) ''screenshot_t2.png''
        ''out/screenshot_t2.png''
      = Inr ((Some ''screenshot_t2.png'', None),
             demo_kept\<lparr>last_screenshot_path := Some ''out/screenshot_t2.png''\<rparr>,
             corrupt_files(''out/screenshot_t2.png'' \<mapsto> 7))
   \<and> calculate_similarity_body (failing_ssim_env ''t2'' 7)
        (demo_files(''out/screenshot_t2.png'' \<mapsto> 7)) ''out/screenshot_t1.png''
        ''out/screenshot_t2.png'' = Inl (Exception ''win_size exceeds image extent'')
   \<and> print_out (failing_ssim_env ''t2'' 7)
        (similarity_print_prefix @ str_exn (Exception ''win_size exceeds image extent'')) = None
   \<and> calculate_similarity (failing_ssim_env ''t2'' 7)
        (demo_files(''out/screenshot_t2.png'' \<mapsto> 7)) ''out/screenshot_t1.png''
        ''out/screenshot_t2.png'' = Inr 0"
proof -
  note c = corrupt_imread [of "''t2''" 7]
  have t: "0 < similarity_threshold demo_kept"
    by (simp add: demo_threshold)
  have pr: "print_out (failing_ssim_env ''t2'' 7)
        (similarity_print_prefix @ str_exn (Exception ''win_size exceeds image extent'')) = None"
    by (simp add: demo_defs)
  have undecoded:
    "calculate_similarity (demo_env ''t2'' 7) (corrupt_files(''out/screenshot_t2.png'' \<mapsto> 7))
        ''out/screenshot_t1.png'' ''out/screenshot_t2.png'' = Inr 0
     \<and> check_and_handle_duplicate (demo_env ''t2'' 7) demo_kept
        (corrupt_files(''out/screenshot_t2.png'' \<mapsto> 7)) ''screenshot_t2.png''
        ''out/screenshot_t2.png''
      = Inr ((Some ''screenshot_t2.png'', None),
             demo_kept\<lparr>last_screenshot_path := Some ''out/screenshot_t2.png''\<rparr>,
             corrupt_files(''out/screenshot_t2.png'' \<mapsto> 7))"
    using calculate_similarity_degrades_to_zero
            [of "demo_env ''t2'' 7" "corrupt_files(''out/screenshot_t2.png'' \<mapsto> 7)"
                "''out/screenshot_t1.png''" "''out/screenshot_t2.png''"]
          c demo_last t
    by blast
  have failing:
    "calculate_similarity (failing_ssim_env ''t2'' 7)
        (demo_files(''out/screenshot_t2.png'' \<mapsto> 7)) ''out/screenshot_t1.png''
        ''out/screenshot_t2.png'' = Inr 0"
    using calculate_similarity_degrades_to_zero
            [of "failing_ssim_env ''t2'' 7" "demo_files(''out/screenshot_t2.png'' \<mapsto> 7)"
                "''out/screenshot_t1.png''" "''out/screenshot_t2.png''"]
          failing_ssim_body pr
    by blast
  from undecoded failing c demo_last t failing_ssim_body pr show ?thesis
    by blast
qed

text \<open>
  The claim as stated, refuted. First: on a console where \<^verbatim>\<open>print\<close> raises, a failing
  similarity computation makes \<^verbatim>\<open>calculate_similarity\<close> raise the exception of \<^verbatim>\<open>print\<close>.
  Second: with the threshold 0 and a corrupted last kept file, the comparator returns 0,
  \<^verbatim>\<open>capture\<close> returns \<^verbatim>\<open>(None, 0)\<close>, removes the new file and leaves the object as it was, so
  the corrupted file remains the baseline of every later capture.
\<close>

theorem calculate_similarity_counterexample:
  "calculate_similarity (unprintable_env ''t2'' 7)
     (demo_files(''out/screenshot_t2.png'' \<mapsto> 7)) ''out/screenshot_t1.png''
     ''out/screenshot_t2.png'' = Inl (Exception ''codec cannot encode characters'')
   \<and> imread (demo_env ''t2'' 7) (corrupt_files(''out/screenshot_t2.png'' \<mapsto> 7))
        ''out/screenshot_t1.png'' = None
   \<and> similarity_threshold demo_kept0 = 0
   \<and> capture (demo_env ''t2'' 7) demo_kept0 corrupt_files =
        Inr ((None, Some 0), demo_kept0, corrupt_files)
   \<and> last_screenshot_path demo_kept0 = Some ''out/screenshot_t1.png''
   \<and> corrupt_files ''out/screenshot_t2.png'' = None"
proof -
  have body: "calculate_similarity_body (unprintable_env ''t2'' 7)
     (demo_files(''out/screenshot_t2.png'' \<mapsto> 7)) ''out/screenshot_t1.png''
     ''out/screenshot_t2.png'' = Inl (Exception ''win_size exceeds image extent'')"
    by (simp add: calculate_similarity_body_def imread_def resize_images_to_match_def demo_defs)
  have raised: "calculate_similarity (unprintable_env ''t2'' 7)
     (demo_files(''out/screenshot_t2.png'' \<mapsto> 7)) ''out/screenshot_t1.png''
     ''out/screenshot_t2.png'' = Inl (Exception ''codec cannot encode characters'')"
    by (simp add: calculate_similarity_body_raises [OF body]) (simp add: demo_defs)
  note c = corrupt_imread [of "''t2''" 7]
  have l: "last_screenshot_path demo_kept0 = Some ''out/screenshot_t1.png''"
    and t: "similarity_threshold demo_kept0 = 0"
    by (simp_all add: demo_defs)
  have written: "capture_try (demo_env ''t2'' 7) demo_kept0 corrupt_files =
     Inr (''screenshot_t2.png'', ''out/screenshot_t2.png'',
          corrupt_files(''out/screenshot_t2.png'' \<mapsto> 7))"
    by (simp add: capture_try_def take_screenshot_def Let_def demo_defs)
  have zero: "calculate_similarity (demo_env ''t2'' 7)
      (corrupt_files(''out/screenshot_t2.png'' \<mapsto> 7))
      ''out/screenshot_t1.png'' ''out/screenshot_t2.png'' = Inr 0"
    using c by (simp add: calculate_similarity_body_undecoded calculate_similarity_body_returns)
  have ex: "path_exists (corrupt_files(''out/screenshot_t2.png'' \<mapsto> 7)) ''out/screenshot_t1.png''"
    "path_exists (corrupt_files(''out/screenshot_t2.png'' \<mapsto> 7)) ''out/screenshot_t2.png''"
    and gone: "(corrupt_files(''out/screenshot_t2.png'' \<mapsto> 7))(''out/screenshot_t2.png'' := None)
               = corrupt_files"
    and n: "corrupt_files ''out/screenshot_t2.png'' = None"
    by (simp_all add: path_exists_def corrupt_files_def)
  have "check_and_handle_duplicate (demo_env ''t2'' 7) demo_kept0
          (corrupt_files(''out/screenshot_t2.png'' \<mapsto> 7)) ''screenshot_t2.png''
          ''out/screenshot_t2.png''
        = Inr ((None, Some 0), demo_kept0,
               (corrupt_files(''out/screenshot_t2.png'' \<mapsto> 7))(''out/screenshot_t2.png'' := None))"
    by (rule check_duplicate [OF l]) (simp_all add: ex zero t)
  then have "capture (demo_env ''t2'' 7) demo_kept0 corrupt_files =
        Inr ((None, Some 0), demo_kept0, corrupt_files)"
    by (simp only: capture_after_try [OF written] gone)
  with raised c l t n show ?thesis
    by simp
qed

text \<open>
  Claim C9. Whatever the object held before, \<^verbatim>\<open>setup\<close> stores the five given settings and
  resets \<^verbatim>\<open>last_screenshot_path\<close> to \<^verbatim>\<open>None\<close>. The first capture after it is therefore kept
  without any comparison, whenever the screenshot is taken and saved.
\<close>

theorem setup_resets_last_screenshot:
  "last_screenshot_path (setup_capture self sp d i r t) = None
   \<and> save_path (setup_capture self sp d i r t) = Some sp
   \<and> duration (setup_capture self sp d i r t) = d
   \<and> interval (setup_capture self sp d i r t) = i
   \<and> region (setup_capture self sp d i r t) = r
   \<and> similarity_threshold (setup_capture self sp d i r t) = t
   \<and> (\<forall>E fs filename filepath fs1.
         capture_try E (setup_capture self sp d i r t) fs = Inr (filename, filepath, fs1) \<longrightarrow>
         capture E (setup_capture self sp d i r t) fs =
           Inr ((Some filename, None),
                (setup_capture self sp d i r t)\<lparr>last_screenshot_path := Some filepath\<rparr>, fs1))"
proof -
  have n: "last_screenshot_path (setup_capture self sp d i r t) = None"
    by (simp add: setup_capture_def)
  have "capture E (setup_capture self sp d i r t) fs =
           Inr ((Some filename, None),
                (setup_capture self sp d i r t)\<lparr>last_screenshot_path := Some filepath\<rparr>, fs1)"
    if "capture_try E (setup_capture self sp d i r t) fs = Inr (filename, filepath, fs1)"
    for E :: "('a, 'b) env" and fs filename filepath fs1
    using n by (simp add: capture_after_try [OF that] check_keep)
  then show ?thesis
    by (simp add: setup_capture_def)
qed

theorem setup_resets_last_screenshot_witness:
  "last_screenshot_path demo_kept = Some ''out/screenshot_t1.png''
   \<and> last_screenshot_path (setup_capture demo_kept ''out'' 10 5 None 95) = None
   \<and> capture (demo_env ''t2'' 7) (setup_capture demo_kept ''out'' 10 5 None 95) demo_files =
         Inr ((Some ''screenshot_t2.png'', None),
              (setup_capture demo_kept ''out'' 10 5 None 95)
                \<lparr>last_screenshot_path := Some ''out/screenshot_t2.png''\<rparr>,
              demo_files(''out/screenshot_t2.png'' \<mapsto> 7))"
proof -
  have "capture_try (demo_env ''t2'' 7) (setup_capture demo_kept ''out'' 10 5 None 95) demo_files =
     Inr (''screenshot_t2.png'', ''out/screenshot_t2.png'',
          demo_files(''out/screenshot_t2.png'' \<mapsto> 7))"
    by (simp add: capture_try_def take_screenshot_def Let_def demo_defs)
  with setup_resets_last_screenshot [of demo_kept "''out''" 10 5 None 95] demo_last
  show ?thesis
    by blast
qed

text \<open>
  Claim C1. Suppose \<^verbatim>\<open>capture\<close> has taken and saved the new screenshot, the object holds the
  path of a last kept image, that file exists, and the similarity computed between it and
  the new file is at least the threshold. Then \<^verbatim>\<open>capture\<close> returns \<^verbatim>\<open>(None, similarity)\<close>, the
  new file is removed, and the object, with its \<^verbatim>\<open>last_screenshot_path\<close>, is unchanged.
\<close>

theorem capture_duplicate:
  assumes "capture_try E self fs = Inr (filename, filepath, fs1)"
    and "last_screenshot_path self = Some prev" and "prev \<noteq> []" and "path_exists fs1 prev"
    and "calculate_similarity E fs1 prev filepath = Inr similarity"
    and "real_of_int (similarity_threshold self) \<le> similarity"
  shows "capture E self fs = Inr ((None, Some similarity), self, fs1(filepath := None))
       \<and> \<not> path_exists (fs1(filepath := None)) filepath"
proof -
  from assms(1) have "path_exists fs1 filepath"
    by (auto dest: capture_try_Inr simp: path_exists_def)
  with assms show ?thesis
    by (simp add: capture_after_try check_duplicate path_exists_def)
qed

theorem capture_duplicate_witness:
  "last_screenshot_path demo_kept = Some ''out/screenshot_t1.png''
   \<and> path_exists (demo_files(''out/screenshot_t2.png'' \<mapsto> 7)) ''out/screenshot_t1.png''
   \<and> real_of_int (similarity_threshold demo_kept) \<le> 100
   \<and> capture (demo_env ''t2'' 7) demo_kept demo_files =
       Inr ((None, Some 100), demo_kept, demo_files)
   \<and> \<not> path_exists demo_files ''out/screenshot_t2.png''"
proof -
  have h3: "''out/screenshot_t1.png'' \<noteq> []"
    by simp
  have h5: "calculate_similarity (demo_env ''t2'' 7)
      (demo_files(''out/screenshot_t2.png'' \<mapsto> 7))
      ''out/screenshot_t1.png'' ''out/screenshot_t2.png'' = Inr 100"
    by (simp add: demo_similarity)
  have h6: "real_of_int (similarity_threshold demo_kept) \<le> 100"
    by (simp add: demo_threshold)
  from capture_duplicate [OF demo_capture_try demo_last h3 demo_files_after(1) h5 h6]
       demo_last demo_files_after h6
  show ?thesis
    by simp
qed

text \<open>
  Claim C2. Suppose \<^verbatim>\<open>capture\<close> has taken and saved the new screenshot. If the object holds no
  last path, or the path it holds is empty or names no existing file, or the similarity
  computed against it is strictly below the threshold, then \<^verbatim>\<open>capture\<close> returns
  \<^verbatim>\<open>(filename, None)\<close>, the new file stays, and \<^verbatim>\<open>last_screenshot_path\<close> becomes the new path.
\<close>

theorem capture_kept:
  assumes "capture_try E self fs = Inr (filename, filepath, fs1)"
    and "last_screenshot_path self = None
         \<or> (\<exists>p. last_screenshot_path self = Some p \<and> (p = [] \<or> \<not> path_exists fs1 p))
         \<or> (\<exists>p s. last_screenshot_path self = Some p
               \<and> calculate_similarity E fs1 p filepath = Inr s
               \<and> s < real_of_int (similarity_threshold self))"
  shows "capture E self fs =
           Inr ((Some filename, None), self\<lparr>last_screenshot_path := Some filepath\<rparr>, fs1)"
  using assms by (simp only: capture_after_try check_keep)

theorem capture_kept_witness:
  "calculate_similarity (demo_env ''t2'' 8) (demo_files(''out/screenshot_t2.png'' \<mapsto> 8))
        ''out/screenshot_t1.png'' ''out/screenshot_t2.png'' = Inr 40
   \<and> 40 < real_of_int (similarity_threshold demo_kept)
   \<and> capture (demo_env ''t2'' 8) demo_kept demo_files =
       Inr ((Some ''screenshot_t2.png'', None),
            demo_kept\<lparr>last_screenshot_path := Some ''out/screenshot_t2.png''\<rparr>,
            demo_files(''out/screenshot_t2.png'' \<mapsto> 8))"
proof -
  have h5: "calculate_similarity (demo_env ''t2'' 8)
      (demo_files(''out/screenshot_t2.png'' \<mapsto> 8))
      ''out/screenshot_t1.png'' ''out/screenshot_t2.png'' = Inr 40"
    by (simp add: demo_similarity)
  have h6: "40 < real_of_int (similarity_threshold demo_kept)"
    by (simp add: demo_threshold)
  have "last_screenshot_path demo_kept = None
         \<or> (\<exists>p. last_screenshot_path demo_kept = Some p
               \<and> (p = [] \<or> \<not> path_exists (demo_files(''out/screenshot_t2.png'' \<mapsto> 8)) p))
         \<or> (\<exists>p s. last_screenshot_path demo_kept = Some p
               \<and> calculate_similarity (demo_env ''t2'' 8)
                    (demo_files(''out/screenshot_t2.png'' \<mapsto> 8)) p
                    ''out/screenshot_t2.png'' = Inr s
               \<and> s < real_of_int (similarity_threshold demo_kept))"
    using demo_last h5 h6 by blast
  from capture_kept [OF demo_capture_try this] h5 h6 show ?thesis
    by simp
qed

text \<open>
  Claim C8. Whenever \<^verbatim>\<open>capture\<close> returns, the tuple it returns is either a file name with
  \<^verbatim>\<open>None\<close> for the similarity, or \<^verbatim>\<open>None\<close> for the file name with a similarity; in the second
  case the similarity is at least the threshold of the object.
\<close>

theorem capture_result_shape:
  assumes "capture E self fs = Inr ((filename, similarity), self', fs')"
  shows "(filename \<noteq> None \<and> similarity = None)
       \<or> (filename = None \<and>
            (\<exists>s. similarity = Some s \<and> real_of_int (similarity_threshold self) \<le> s))"
proof -
  from capture_returns [OF assms] obtain name path fs1
    where "check_and_handle_duplicate E self fs1 name path =
             Inr ((filename, similarity), self', fs')"
    by blast
  from check_shapes [OF this] show ?thesis
    by auto
qed

theorem capture_result_shape_witness:
  "capture (demo_env ''t2'' 7) demo_kept demo_files =
     Inr ((None, Some 100), demo_kept, demo_files)
   \<and> real_of_int (similarity_threshold demo_kept) \<le> 100"
  using capture_result_shape [OF demo_capture_duplicate] demo_capture_duplicate
  by simp

section \<open>The worker loop\<close>

lemma py_int_of_int [simp]: "py_int (real_of_int n) = n"
  by (simp add: py_int_def)

text \<open>Running the loop on more observations continues from where it stood.\<close>

lemma worker_loop_append:
  "worker_loop st (pre @ rest) w =
     (case worker_loop st pre w of
        Running w' \<Rightarrow> worker_loop st rest w'
      | Finished w' \<Rightarrow> Finished w')"
  by (induction pre arbitrary: w) (simp_all split: prod.split)

lemma loop_body_counted:
  assumes "counted w" and "loop_body st t w = (w', leave)"
  shows "counted w'"
  using assms
  by (auto simp: loop_body_def counted_def Let_def split: sum.splits option.splits if_splits)

lemma worker_loop_counted:
  assumes "counted w" and "worker_loop st ts w = Running w'"
  shows "counted w'"
  using assms
proof (induction ts arbitrary: w)
  case Nil
  then show ?case by simp
next
  case (Cons t ts)
  obtain w1 leave where b: "loop_body st t w = (w1, leave)"
    by (cases "loop_body st t w")
  with Cons.prems have "is_capturing t" and "\<not> leave" and "worker_loop st ts w1 = Running w'"
    by (auto split: if_splits)
  moreover from Cons.prems(1) b have "counted w1"
    by (rule loop_body_counted)
  ultimately show ?case
    using Cons.IH by blast
qed

lemma counted_start: "counted (worker_start self fs)"
  by (simp add: counted_def worker_start_def)

lemma loop_body_raises:
  assumes "capture (tick_env t) (screenshot_capture w) (files w) = Inl e"
  shows "loop_body st t w = (w\<lparr>scheduled := scheduled w @ [Show_error (str_exn e)]\<rparr>, True)"
  using assms by (simp add: loop_body_def)

lemma demo_loop_body:
  "0 \<le> now - 1000 \<Longrightarrow> now - 1000 < 10 \<Longrightarrow>
   loop_body 1000 (demo_tick ''t1'' 7 now) (worker_start demo_capture Map.empty) =
     (\<lparr> screenshot_capture = demo_kept, files = demo_files, count = 1, duplicate_count = 0,
        scheduled = [Update_progress 1 (py_int (now - 1000)) (py_int (10 - (now - 1000)))
                       ((now - 1000) / 10 * 100) ''screenshot_t1.png''] \<rparr>, False)"
  by (simp add: loop_body_def demo_tick_def worker_start_def demo_first_capture demo_duration
        Let_def)

lemma demo_worker_loop:
  "worker_loop 1000 [demo_tick ''t1'' 7 1001] (worker_start demo_capture Map.empty) =
     Running demo_worker"
proof -
  have "loop_body 1000 (demo_tick ''t1'' 7 1001) (worker_start demo_capture Map.empty) =
          (demo_worker, False)"
    by (simp add: demo_loop_body demo_worker_def py_int_def)
  then show ?thesis
    by (simp add: demo_tick_def)
qed

text \<open>
  Claim C6. In every iteration in which \<^verbatim>\<open>capture\<close> returns, kept or duplicate, and the
  duration is not 0, the worker schedules the update of that case with the progress
  \<open>elapsed / duration * 100\<close>, where \<open>elapsed\<close> is the clock reading minus the start time; no
  other call of the iteration carries a progress. The value is not clamped: for a
  positive duration that the elapsed time exceeds, it is above 100.
\<close>

theorem progress_not_clamped:
  assumes "capture (tick_env t) (screenshot_capture w) (files w) =
             Inr ((filename, similarity), self', fs')"
    and "duration (screenshot_capture w) \<noteq> 0"
  shows "let elapsed = time_now t - start_time;
             remaining = real_of_int (duration (screenshot_capture w)) - elapsed;
             progress = elapsed / real_of_int (duration (screenshot_capture w)) * 100
         in (\<exists>more. scheduled (fst (loop_body start_time t w)) =
               scheduled w @
               (case filename of
                  None \<Rightarrow> [Update_duplicate_status similarity,
                           Update_time_info (py_int elapsed) (py_int remaining) progress]
                | Some name \<Rightarrow> [Update_progress (count w + 1) (py_int elapsed) (py_int remaining)
                                 progress name]) @ more
               \<and> list_all (\<lambda>c. progress_of c = None) more)
            \<and> (0 < duration (screenshot_capture w)
                 \<and> real_of_int (duration (screenshot_capture w)) < elapsed \<longrightarrow> 100 < progress)"
proof -
  from capture_returns [OF assms(1)] obtain name path fs1
    where "check_and_handle_duplicate (tick_env t) (screenshot_capture w) fs1 name path =
             Inr ((filename, similarity), self', fs')"
    by blast
  from check_shapes [OF this] have d: "duration self' = duration (screenshot_capture w)"
    by auto
  have p: "100 < (time_now t - start_time) / real_of_int (duration (screenshot_capture w)) * 100"
    if "0 < duration (screenshot_capture w)"
      and "real_of_int (duration (screenshot_capture w)) < time_now t - start_time"
    using that by (simp add: field_simps)
  show ?thesis
    using assms d p
    by (cases filename) (simp_all add: loop_body_def Let_def)
qed

theorem progress_not_clamped_witness:
  "capture (tick_env (demo_tick ''t1'' 7 1012))
      (screenshot_capture (worker_start demo_capture Map.empty))
      (files (worker_start demo_capture Map.empty)) =
     Inr ((Some ''screenshot_t1.png'', None), demo_kept, demo_files)
   \<and> duration (screenshot_capture (worker_start demo_capture Map.empty :: nat worker)) = 10
   \<and> (\<exists>more. scheduled (fst (loop_body 1000 (demo_tick ''t1'' 7 1012)
                                  (worker_start demo_capture Map.empty))) =
               Update_progress 1 12 (- 2) 120 ''screenshot_t1.png'' # more)"
proof -
  have c: "capture (tick_env (demo_tick ''t1'' 7 1012))
      (screenshot_capture (worker_start demo_capture Map.empty))
      (files (worker_start demo_capture Map.empty)) =
     Inr ((Some ''screenshot_t1.png'', None), demo_kept, demo_files)"
    by (simp add: demo_tick_def worker_start_def demo_first_capture)
  have d: "duration (screenshot_capture (worker_start demo_capture Map.empty :: nat worker)) = 10"
    by (simp add: worker_start_def demo_duration)
  then have n:
    "duration (screenshot_capture (worker_start demo_capture Map.empty :: nat worker)) \<noteq> 0"
    by simp
  have t: "time_now (demo_tick ''t1'' 7 1012) = 1012"
    by (simp add: demo_tick_def)
  have k: "count (worker_start demo_capture Map.empty :: nat worker) = 0"
    "scheduled (worker_start demo_capture Map.empty :: nat worker) = []"
    by (simp_all add: worker_start_def)
  from progress_not_clamped [OF c n, of 1000] c d
  show ?thesis
    by (simp add: Let_def t k py_int_def) blast
qed

text \<open>
  Claim C7. Suppose the loop, started by \<^verbatim>\<open>_capture_worker\<close>, stands at its test with the
  variables \<open>w\<close>, the flag is set, and the next call of \<^verbatim>\<open>capture\<close> raises \<open>e\<close>. Then, whatever
  observations follow, the worker finishes having scheduled \<^verbatim>\<open>show_error(str(e))\<close> and then
  \<^verbatim>\<open>capture_complete(count, duplicate_count)\<close> with the counters as they stood before the
  failing call, and nothing else: no further iteration runs. The counters are the numbers
  of kept and of duplicate captures reported before, and no \<^verbatim>\<open>capture_complete\<close> was
  scheduled before.
\<close>

theorem capture_failure_ends_run:
  assumes "worker_loop start_time pre (worker_start self fs) = Running w"
    and "is_capturing t"
    and "capture (tick_env t) (screenshot_capture w) (files w) = Inl e"
  shows "capture_worker start_time (pre @ t # rest) self fs =
           Finished (w\<lparr>scheduled := scheduled w @
              [Show_error (str_exn e), Capture_complete (count w) (duplicate_count w)]\<rparr>)
       \<and> count w = int (length (filter is_kept_call (scheduled w)))
       \<and> duplicate_count w = int (length (filter is_duplicate_call (scheduled w)))
       \<and> filter is_complete_call (scheduled w) = []"
proof -
  have "worker_loop start_time (pre @ t # rest) (worker_start self fs) =
          Finished (w\<lparr>scheduled := scheduled w @ [Show_error (str_exn e)]\<rparr>)"
    using assms by (simp add: worker_loop_append loop_body_raises)
  then have "capture_worker start_time (pre @ t # rest) self fs =
           Finished (w\<lparr>scheduled := scheduled w @
              [Show_error (str_exn e), Capture_complete (count w) (duplicate_count w)]\<rparr>)"
    by (simp add: capture_worker_def schedule_complete_def)
  moreover have "counted w"
    using counted_start assms(1) by (rule worker_loop_counted)
  ultimately show ?thesis
    by (simp add: counted_def)
qed

theorem capture_failure_ends_run_witness:
  "worker_loop 1000 [demo_tick ''t1'' 7 1001] (worker_start demo_capture Map.empty) =
     Running demo_worker
   \<and> is_capturing (broken_tick ''t2'' 1006)
   \<and> capture (tick_env (broken_tick ''t2'' 1006)) (screenshot_capture demo_worker)
        (files demo_worker) = Inl (Exception (capture_error_prefix @ ''screen grab failed''))
   \<and> capture_worker 1000
        [demo_tick ''t1'' 7 1001, broken_tick ''t2'' 1006, demo_tick ''t3'' 9 1011]
        demo_capture Map.empty =
      Finished \<lparr> screenshot_capture = demo_kept, files = demo_files, count = 1,
                 duplicate_count = 0,
                 scheduled = [Update_progress 1 1 9 10 ''screenshot_t1.png'',
                              Show_error (capture_error_prefix @ ''screen grab failed''),
                              Capture_complete 1 0] \<rparr>"
proof -
  have f: "is_capturing (broken_tick ''t2'' 1006)"
    by (simp add: broken_tick_def)
  have c: "capture (tick_env (broken_tick ''t2'' 1006)) (screenshot_capture demo_worker)
        (files demo_worker) = Inl (Exception (capture_error_prefix @ ''screen grab failed''))"
    by (simp add: broken_tick_def demo_worker_def demo_broken_capture)
  from capture_failure_ends_run [OF demo_worker_loop f c, of "[demo_tick ''t3'' 9 1011]"]
       demo_worker_loop f c
  show ?thesis
    by (simp add: demo_worker_def)
qed

end
